theory Spec2Isabelle
  imports Main "HOL-Library.Word"
begin

section \<open>Data model of xslt.c\<close>

text \<open>
  The file \<^verbatim>\<open>xslt.c\<close> is a thin layer over libxml2 and libxslt. The libraries are
  not part of the repository, so their decisions (does this text parse, what does the
  transform produce, which bytes does serialisation give) are parameters of the model,
  collected in the record \<open>engine\<close>. Everything the C file itself does is modelled:
  the length checks, the order of the calls, the tests on their results, which objects are
  released on which path, the process-wide last-error slot, and the stores through the
  caller's output pointers.

  Memory is a list of cells that only grows: an allocation appends a cell and its
  address is the index of that cell; releasing an object overwrites its cell with
  \<open>Freed\<close>. So an address is never reused and a leak is a cell that is still an object
  after the call. The C file never tests the result of \<^verbatim>\<open>malloc\<close> or \<^verbatim>\<open>calloc\<close>;
  whether a request is granted is a parameter too, and a refused request makes the store
  that follows go through NULL, which is a fault.

  The target is a 64-bit little-endian one: \<^verbatim>\<open>int\<close> has 32 bits, \<^verbatim>\<open>size_t\<close> and pointers
  have 64.
\<close>

type_synonym addr = nat
type_synonym ptr = "addr option"  \<comment> \<open>\<open>None\<close> is the NULL pointer\<close>
type_synonym byte = "8 word"
type_synonym xml_error = nat  \<comment> \<open>the code of the pending \<^verbatim>\<open>xmlError\<close>\<close>
type_synonym param_array = "string option list"  \<comment> \<open>\<^verbatim>\<open>const char **\<close>: one slot per pointer\<close>

datatype fault = NullDeref | InvalidHandle | SignedOverflow | OutOfBounds

text \<open>
  A memory cell: a document tree (\<^verbatim>\<open>xmlDoc\<close>), a stylesheet (\<^verbatim>\<open>xsltStylesheet\<close>,
  with its \<^verbatim>\<open>doc\<close> and \<^verbatim>\<open>errors\<close> fields and the compiled program), a byte buffer, or
  a released cell.
\<close>

datatype ('d, 'p) obj = Doc 'd | Sheet addr int 'p | Buf "byte list" | Freed

record ('d, 'p) world =
  heap :: "('d, 'p) obj list"
  last_error :: "xml_error option"  \<comment> \<open>what \<^verbatim>\<open>xmlGetLastError()\<close> returns\<close>

text \<open>The caller's two output locations, \<^verbatim>\<open>*xml_txt\<close> and \<^verbatim>\<open>*xml_txt_len\<close>.\<close>

record out_cells =
  xml_txt :: ptr
  xml_txt_len :: nat  \<comment> \<open>the value of the \<^verbatim>\<open>size_t\<close>\<close>

text \<open>What \<^verbatim>\<open>xsltSaveResultToString\<close> hands back: its status, the bytes of the buffer it
  allocated (\<open>None\<close> when it stored NULL) and the \<^verbatim>\<open>int\<close> it stored as the length.\<close>

record save_result =
  sr_status :: int
  sr_txt :: "byte list option"
  sr_len :: "32 word"

text \<open>
  The environment of one call: how the libraries and the allocator answer while it runs.
  Every library entry also receives the pending error and returns the new one, because
  any libxml2 or libxslt call may record an error in the process-wide slot.
  \<open>eng_malloc n\<close> says whether \<^verbatim>\<open>malloc(n)\<close> is granted. Answers that depend on more than
  the arguments (the clock, random numbers, addresses: \<^verbatim>\<open>init_exslt\<close> registers the EXSLT
  functions; the memory left) are modelled by different engines for different calls.
\<close>

record ('d, 'p) engine =
  eng_parse :: "string \<Rightarrow> xml_error option \<Rightarrow> 'd option \<times> xml_error option"
  eng_compile :: "'d \<Rightarrow> xml_error option \<Rightarrow> (int \<times> 'p) option \<times> xml_error option"
  eng_transform ::
    "'p \<Rightarrow> 'd \<Rightarrow> param_array \<Rightarrow> xml_error option \<Rightarrow> 'd option \<times> xml_error option"
  eng_save :: "'d \<Rightarrow> 'p \<Rightarrow> xml_error option \<Rightarrow> save_result \<times> xml_error option"
  eng_malloc :: "nat \<Rightarrow> bool"

section \<open>Memory primitives\<close>

definition INT32_MAX :: nat where
  "INT32_MAX = 2147483647"

definition strlen :: "string \<Rightarrow> nat" where
  "strlen s = length s"

definition alloc :: "('d, 'p) obj \<Rightarrow> ('d, 'p) world \<Rightarrow> addr \<times> ('d, 'p) world" where
  "alloc x w = (length (heap w), w\<lparr>heap := heap w @ [x]\<rparr>)"

definition lookup :: "('d, 'p) world \<Rightarrow> addr \<Rightarrow> ('d, 'p) obj option" where
  "lookup w a = (if a < length (heap w) then Some (heap w ! a) else None)"

definition release :: "addr \<Rightarrow> ('d, 'p) world \<Rightarrow> ('d, 'p) world" where
  "release a w = w\<lparr>heap := (heap w)[a := Freed]\<rparr>"

definition live :: "('d, 'p) world \<Rightarrow> addr \<Rightarrow> bool" where
  "live w a = (case lookup w a of None \<Rightarrow> False | Some Freed \<Rightarrow> False | Some _ \<Rightarrow> True)"

definition xmlGetLastError :: "('d, 'p) world \<Rightarrow> xml_error option" where
  "xmlGetLastError w = last_error w"

definition xmlResetLastError :: "('d, 'p) world \<Rightarrow> ('d, 'p) world" where
  "xmlResetLastError w = w\<lparr>last_error := None\<rparr>"

definition xmlFreeDoc :: "ptr \<Rightarrow> ('d, 'p) world \<Rightarrow> ('d, 'p) world" where
  "xmlFreeDoc p w = (case p of None \<Rightarrow> w | Some a \<Rightarrow> release a w)"

definition xmlFree :: "ptr \<Rightarrow> ('d, 'p) world \<Rightarrow> ('d, 'p) world" where
  "xmlFree p w = (case p of None \<Rightarrow> w | Some a \<Rightarrow> release a w)"

section \<open>The library calls, as steps on the world\<close>

text \<open>
  \<^verbatim>\<open>xmlParseMemory(buffer, size)\<close>: the engine decides whether the first \<open>sz\<close> bytes
  give a tree and which error is pending afterwards; a tree is a new allocation.
\<close>

definition xmlParseMemory ::
  "('d, 'p) engine \<Rightarrow> string \<Rightarrow> nat \<Rightarrow> ('d, 'p) world \<Rightarrow> ptr \<times> ('d, 'p) world" where
  "xmlParseMemory E buffer sz w =
     (case eng_parse E (take sz buffer) (last_error w) of
        (None, e) \<Rightarrow> (None, w\<lparr>last_error := e\<rparr>)
      | (Some t, e) \<Rightarrow>
          (case alloc (Doc t) (w\<lparr>last_error := e\<rparr>) of (a, w') \<Rightarrow> (Some a, w')))"

text \<open>
  \<^verbatim>\<open>xsltParseStylesheetDoc(doc)\<close>: NULL, or a new stylesheet whose \<^verbatim>\<open>doc\<close> field is
  the tree it was given. On NULL the tree is left to the caller. (A NULL or dangling
  argument gives NULL; \<open>make_style\<close> only passes the tree it has just parsed.)
\<close>

definition xsltParseStylesheetDoc ::
  "('d, 'p) engine \<Rightarrow> ptr \<Rightarrow> ('d, 'p) world \<Rightarrow> ptr \<times> ('d, 'p) world" where
  "xsltParseStylesheetDoc E doc w =
     (case doc of
        None \<Rightarrow> (None, w)
      | Some d \<Rightarrow>
          (case lookup w d of
             Some (Doc t) \<Rightarrow>
               (case eng_compile E t (last_error w) of
                  (None, e) \<Rightarrow> (None, w\<lparr>last_error := e\<rparr>)
                | (Some (errs, prog), e) \<Rightarrow>
                    (case alloc (Sheet d errs prog) (w\<lparr>last_error := e\<rparr>) of
                       (a, w') \<Rightarrow> (Some a, w')))
           | _ \<Rightarrow> (None, w)))"

text \<open>\<^verbatim>\<open>(*style)->errors\<close>, read only behind the test \<^verbatim>\<open>*style == NULL\<close>.\<close>

definition sheet_errors :: "('d, 'p) world \<Rightarrow> ptr \<Rightarrow> int" where
  "sheet_errors w p =
     (case p of
        None \<Rightarrow> 0
      | Some a \<Rightarrow> (case lookup w a of Some (Sheet d errs prog) \<Rightarrow> errs | _ \<Rightarrow> 0))"

text \<open>
  \<^verbatim>\<open>xsltApplyStylesheet(style, doc, params)\<close>: NULL, or a new result tree. The handle
  comes from the caller; a handle that is not a stylesheet in memory is a fault. A NULL
  handle makes libxslt return NULL.
\<close>

definition xsltApplyStylesheet ::
  "('d, 'p) engine \<Rightarrow> ptr \<Rightarrow> ptr \<Rightarrow> param_array \<Rightarrow> ('d, 'p) world
     \<Rightarrow> fault + (ptr \<times> ('d, 'p) world)" where
  "xsltApplyStylesheet E style doc params w =
     (case style of
        None \<Rightarrow> Inr (None, w)
      | Some s \<Rightarrow>
          (case lookup w s of
             Some (Sheet sd errs prog) \<Rightarrow>
               (case doc of
                  None \<Rightarrow> Inr (None, w)
                | Some d \<Rightarrow>
                    (case lookup w d of
                       Some (Doc t) \<Rightarrow>
                         (case eng_transform E prog t params (last_error w) of
                            (None, e) \<Rightarrow> Inr (None, w\<lparr>last_error := e\<rparr>)
                          | (Some r, e) \<Rightarrow>
                              (case alloc (Doc r) (w\<lparr>last_error := e\<rparr>) of
                                 (a, w') \<Rightarrow> Inr (Some a, w')))
                     | _ \<Rightarrow> Inl InvalidHandle))
           | _ \<Rightarrow> Inl InvalidHandle))"

text \<open>
  \<^verbatim>\<open>xsltSaveResultToString(&xml_output, &len, result, style)\<close>: the status, the
  pointer stored in \<^verbatim>\<open>xml_output\<close> (a new buffer, or NULL) and the \<^verbatim>\<open>int\<close> stored as
  the length.
\<close>

definition xsltSaveResultToString ::
  "('d, 'p) engine \<Rightarrow> ptr \<Rightarrow> ptr \<Rightarrow> ('d, 'p) world
     \<Rightarrow> fault + (int \<times> ptr \<times> 32 word \<times> ('d, 'p) world)" where
  "xsltSaveResultToString E result style w =
     (case result of
        None \<Rightarrow> Inl NullDeref
      | Some r \<Rightarrow>
          (case lookup w r of
             Some (Doc t) \<Rightarrow>
               (case style of
                  None \<Rightarrow> Inl NullDeref
                | Some s \<Rightarrow>
                    (case lookup w s of
                       Some (Sheet sd errs prog) \<Rightarrow>
                         (case eng_save E t prog (last_error w) of
                            (sr, e) \<Rightarrow>
                              (case sr_txt sr of
                                 None \<Rightarrow>
                                   Inr (sr_status sr, None, sr_len sr, w\<lparr>last_error := e\<rparr>)
                               | Some bs \<Rightarrow>
                                   (case alloc (Buf bs) (w\<lparr>last_error := e\<rparr>) of
                                      (a, w') \<Rightarrow> Inr (sr_status sr, Some a, sr_len sr, w'))))
                     | _ \<Rightarrow> Inl InvalidHandle))
           | _ \<Rightarrow> Inl InvalidHandle))"

text \<open>
  \<^verbatim>\<open>xsltFreeStylesheet(style)\<close> releases the stylesheet and, as the comment on
  \<open>free_style\<close> in the C file records, its document too. NULL is ignored.
\<close>

definition xsltFreeStylesheet :: "ptr \<Rightarrow> ('d, 'p) world \<Rightarrow> fault + ('d, 'p) world" where
  "xsltFreeStylesheet style w =
     (case style of
        None \<Rightarrow> Inr w
      | Some s \<Rightarrow>
          (case lookup w s of
             Some (Sheet sd errs prog) \<Rightarrow>
               (case lookup w sd of
                  Some (Doc t) \<Rightarrow> Inr (release s (release sd w))
                | _ \<Rightarrow> Inl InvalidHandle)
           | _ \<Rightarrow> Inl InvalidHandle))"

text \<open>\<^verbatim>\<open>malloc(n)\<close>: NULL when the request is refused, otherwise a new buffer of \<open>n\<close>
  bytes (\<open>apply_style\<close> overwrites all of them).\<close>

definition malloc ::
  "('d, 'p) engine \<Rightarrow> nat \<Rightarrow> ('d, 'p) world \<Rightarrow> ptr \<times> ('d, 'p) world" where
  "malloc E n w =
     (if eng_malloc E n then
        (case alloc (Buf (replicate n 0)) w of (a, w') \<Rightarrow> (Some a, w'))
      else (None, w))"

text \<open>
  A store of an \<^verbatim>\<open>int\<close> at the address of a \<^verbatim>\<open>size_t\<close>, as \<open>apply_style\<close> makes
  through \<^verbatim>\<open>(int *)xml_txt_len\<close>: the low four bytes are replaced, the high four bytes
  stay as the caller left them. (A location holds a value below \<open>2 ^ 64\<close>; the high four
  bytes are zero exactly when it is below \<open>4294967296\<close>.)
\<close>

definition store_int :: "nat \<Rightarrow> 32 word \<Rightarrow> nat" where
  "store_int cell n = (cell div 4294967296) * 4294967296 + unat n"

text \<open>
  \<^verbatim>\<open>strncpy(dst, src, n)\<close> copies bytes of \<open>src\<close> up to, and not including, the first
  zero byte, at most \<open>n\<close> of them, and fills the rest of the \<open>n\<close> bytes of \<open>dst\<close> with
  zero bytes.
\<close>

definition strncpy_bytes :: "byte list \<Rightarrow> nat \<Rightarrow> byte list" where
  "strncpy_bytes src n =
     (let s = takeWhile (\<lambda>b. b \<noteq> 0) (take n src) in s @ replicate (n - length s) 0)"

text \<open>It reads past the end of \<open>src\<close> when \<open>src\<close> is shorter than \<open>n\<close> and holds no zero
  byte, and writes past the end of \<open>dst\<close> when that is shorter than \<open>n\<close>.\<close>

definition strncpy ::
  "ptr \<Rightarrow> ptr \<Rightarrow> nat \<Rightarrow> ('d, 'p) world \<Rightarrow> fault + ('d, 'p) world" where
  "strncpy dst src n w =
     (case src of
        None \<Rightarrow> Inl NullDeref
      | Some s \<Rightarrow>
          (case lookup w s of
             Some (Buf bs) \<Rightarrow>
               (if 0 \<in> set bs \<or> n \<le> length bs then
                  (case dst of
                     None \<Rightarrow> Inl NullDeref
                   | Some d \<Rightarrow>
                       (case lookup w d of
                          Some (Buf old) \<Rightarrow>
                            (if n \<le> length old then
                               Inr (w\<lparr>heap := (heap w)[d := Buf (strncpy_bytes bs n @ drop n old)]\<rparr>)
                             else Inl OutOfBounds)
                        | _ \<Rightarrow> Inl InvalidHandle))
                else Inl OutOfBounds)
           | _ \<Rightarrow> Inl InvalidHandle))"

section \<open>The functions of xslt.c\<close>

text \<open>
  \<open>apply_style\<close>. The result is a fault, or the returned \<^verbatim>\<open>int\<close> with the world and
  the caller's output locations as the call leaves them. The serialiser stores the length
  through \<^verbatim>\<open>(int *)xml_txt_len\<close>; the test, \<^verbatim>\<open>malloc\<close> and \<^verbatim>\<open>strncpy\<close> then read the
  whole \<^verbatim>\<open>size_t\<close>. The result of \<^verbatim>\<open>malloc\<close> is stored in \<^verbatim>\<open>*xml_txt\<close> and used untested.
\<close>

definition apply_style ::
  "('d, 'p) engine \<Rightarrow> ptr \<Rightarrow> string \<Rightarrow> param_array \<Rightarrow> ('d, 'p) world \<Rightarrow> out_cells
     \<Rightarrow> fault + (int \<times> ('d, 'p) world \<times> out_cells)" where
  "apply_style E style xml params w out =
     (let len = strlen xml in
      if len > INT32_MAX then Inr (- 1, w, out)
      else
        (case xmlParseMemory E xml (strlen xml) w of
           (xml_doc, w1) \<Rightarrow>
             if xml_doc = None \<or> xmlGetLastError w1 \<noteq> None then
               Inr (- 1, xmlResetLastError w1, out)
             else
               (case xsltApplyStylesheet E style xml_doc params w1 of
                  Inl f \<Rightarrow> Inl f
                | Inr (result, w2) \<Rightarrow>
                    if result = None then Inr (- 1, xmlFreeDoc xml_doc w2, out)
                    else
                      (case xsltSaveResultToString E result style w2 of
                         Inl f \<Rightarrow> Inl f
                       | Inr (ok, xml_output, n, w3) \<Rightarrow>
                           (let out1 = out\<lparr>xml_txt_len := store_int (xml_txt_len out) n\<rparr> in
                            case
                              (if ok = 0 \<and> xml_txt_len out1 > 0 then
                                 (case malloc E (xml_txt_len out1) w3 of
                                    (buf, w4) \<Rightarrow>
                                      (case strncpy buf xml_output (xml_txt_len out1) w4 of
                                         Inl f \<Rightarrow> Inl f
                                       | Inr w5 \<Rightarrow>
                                           Inr (xmlFree xml_output w5, out1\<lparr>xml_txt := buf\<rparr>)))
                               else Inr (w3, out1))
                            of
                              Inl f \<Rightarrow> Inl f
                            | Inr (w6, out2) \<Rightarrow>
                                Inr (ok, xmlFreeDoc result (xmlFreeDoc xml_doc w6), out2))))))"

definition free_style :: "ptr \<Rightarrow> ('d, 'p) world \<Rightarrow> fault + ('d, 'p) world" where
  "free_style style w = xsltFreeStylesheet style w"

text \<open>\<open>make_style\<close> returns the \<^verbatim>\<open>int\<close>, the world and the content of \<^verbatim>\<open>*style\<close>.\<close>

definition make_style ::
  "('d, 'p) engine \<Rightarrow> string \<Rightarrow> ('d, 'p) world \<Rightarrow> ptr \<Rightarrow> int \<times> ('d, 'p) world \<times> ptr" where
  "make_style E xsl w style =
     (let len = strlen xsl in
      if len > INT32_MAX then (- 1, w, style)
      else
        (case xmlParseMemory E xsl len w of
           (style_doc, w1) \<Rightarrow>
             if style_doc = None \<or> xmlGetLastError w1 \<noteq> None then
               (- 1, xmlResetLastError w1, style)
             else
               (case xsltParseStylesheetDoc E style_doc w1 of
                  (style', w2) \<Rightarrow>
                    if style' = None \<or> sheet_errors w2 style' \<noteq> 0 then
                      (- 1, xmlFreeDoc style_doc w2, style')
                    else (0, w2, style'))))"

text \<open>
  \<open>xslt\<close>. Its local \<^verbatim>\<open>style\<close> is not initialised; it is read only after
  \<open>make_style\<close> has returned 0, which has stored into it, so the model starts it at NULL.
\<close>

definition xslt ::
  "('d, 'p) engine \<Rightarrow> string \<Rightarrow> string \<Rightarrow> param_array \<Rightarrow> ('d, 'p) world \<Rightarrow> out_cells
     \<Rightarrow> fault + (int \<times> ('d, 'p) world \<times> out_cells)" where
  "xslt E xsl xml params w out =
     (case make_style E xsl w None of
        (ok, w1, style) \<Rightarrow>
          if ok < 0 then Inr (- 1, w1, out)
          else
            (case apply_style E style xml params w1 out of
               Inl f \<Rightarrow> Inl f
             | Inr (ok', w2, out') \<Rightarrow>
                 (case free_style style w2 of
                    Inl f \<Rightarrow> Inl f
                  | Inr w3 \<Rightarrow> Inr (ok', w3, out'))))"

subsection \<open>The parameter array\<close>

text \<open>
  \<open>2 * num_tuples + 1\<close> is computed in \<^verbatim>\<open>int\<close>; outside its range the behaviour is
  undefined. \<^verbatim>\<open>calloc(sizeof(char *), 2 * num_tuples + 1)\<close> returns NULL when the count is
  negative (it converts to a \<^verbatim>\<open>size_t\<close> that no allocator can serve) and when the
  allocator refuses the request; \<open>grant b\<close> says whether a request of \<open>b\<close> bytes is
  granted. The result is not tested: after NULL the store \<^verbatim>\<open>a[2 * num_tuples] = NULL\<close> goes
  through NULL.
\<close>

definition sizeof_ptr :: nat where
  "sizeof_ptr = 8"

definition int_ok :: "int \<Rightarrow> bool" where
  "int_ok x = (- 2147483648 \<le> x \<and> x \<le> 2147483647)"

definition make_param_array :: "(nat \<Rightarrow> bool) \<Rightarrow> int \<Rightarrow> fault + param_array" where
  "make_param_array grant num_tuples =
     (if int_ok (2 * num_tuples) \<and> int_ok (2 * num_tuples + 1) then
        (if 0 \<le> 2 * num_tuples + 1 \<and> grant (sizeof_ptr * nat (2 * num_tuples + 1)) then
           Inr ((replicate (nat (2 * num_tuples + 1)) None)[nat (2 * num_tuples) := None])
         else Inl NullDeref)
      else Inl SignedOverflow)"

text \<open>\<open>set_param\<close> does no bounds check: a store outside the array is a fault.\<close>

definition set_param ::
  "param_array \<Rightarrow> string option \<Rightarrow> string option \<Rightarrow> int \<Rightarrow> fault + param_array" where
  "set_param a n v t =
     (if int_ok (2 * t) \<and> int_ok (2 * t + 1) then
        (if 0 \<le> 2 * t \<and> 2 * t + 1 < int (length a) then
           Inr (a[nat (2 * t) := n, nat (2 * t + 1) := v])
         else Inl OutOfBounds)
      else Inl SignedOverflow)"

text \<open>A caller's sequence of \<open>set_param\<close> calls on one array, stopping at a fault.\<close>

fun set_params ::
  "param_array \<Rightarrow> (string option \<times> string option \<times> int) list \<Rightarrow> fault + param_array" where
  "set_params a [] = Inr a"
| "set_params a ((n, v, t) # cs) =
     (case set_param a n v t of Inl f \<Rightarrow> Inl f | Inr a' \<Rightarrow> set_params a' cs)"

section \<open>A small engine for concrete runs\<close>

text \<open>
  A stand-in for the libraries, used to run the model on concrete inputs. A tree is the
  text it was parsed from and a compiled program is the text of its stylesheet.
  \<^item> Parsing fails with error 4 on a text that does not start with \<open><\<close>; a text with a
    colon gives a tree and records the namespace error 201; any other text gives a tree
    and leaves the pending error as it was.
  \<^item> Compiling \<open><none/>\<close> gives NULL, compiling \<open><errs/>\<close> gives a stylesheet with one
    error, anything else a stylesheet without errors.
  \<^item> The transform is the identity, except that \<open><none/>\<close> gives NULL and \<open><loud/>\<close>
    gives a result and records error 1207.
  \<^item> Saving \<open><fail/>\<close> reports status -1, saving \<open><empty/>\<close> reports no bytes; under the
    stylesheet \<open><utf16/>\<close> each character is written as two bytes, low byte first;
    otherwise one byte per character. The buffer ends with a zero byte that the length
    does not count.
  \<^item> \<^verbatim>\<open>malloc\<close> grants every request below 4 GiB.
\<close>

definition demo_parse :: "string \<Rightarrow> xml_error option \<Rightarrow> string option \<times> xml_error option" where
  "demo_parse s e =
     (if s = [] then (None, Some 4)
      else if hd s = CHR ''<'' then
        (if CHR '':'' \<in> set s then (Some s, Some 201) else (Some s, e))
      else (None, Some 4))"

definition demo_compile ::
  "string \<Rightarrow> xml_error option \<Rightarrow> (int \<times> string) option \<times> xml_error option" where
  "demo_compile t e =
     (if t = ''<none/>'' then (None, e)
      else if t = ''<errs/>'' then (Some (1, t), e)
      else (Some (0, t), e))"

definition demo_transform ::
  "string \<Rightarrow> string \<Rightarrow> param_array \<Rightarrow> xml_error option \<Rightarrow> string option \<times> xml_error option" where
  "demo_transform p t params e =
     (if t = ''<none/>'' then (None, e)
      else if t = ''<loud/>'' then (Some t, Some 1207)
      else (Some t, e))"

definition demo_save :: "string \<Rightarrow> string \<Rightarrow> xml_error option \<Rightarrow> save_result \<times> xml_error option" where
  "demo_save r p e =
     (if r = ''<fail/>'' then (\<lparr>sr_status = - 1, sr_txt = None, sr_len = 0\<rparr>, e)
      else if r = ''<empty/>'' then (\<lparr>sr_status = 0, sr_txt = None, sr_len = 0\<rparr>, e)
      else if p = ''<utf16/>'' then
        (\<lparr>sr_status = 0,
          sr_txt = Some (concat (map (\<lambda>c. [of_char c, 0]) r) @ [0, 0]),
          sr_len = of_nat (2 * length r)\<rparr>, e)
      else
        (\<lparr>sr_status = 0, sr_txt = Some (map of_char r @ [0]), sr_len = of_nat (length r)\<rparr>, e))"

definition demo :: "(string, string) engine" where
  "demo = \<lparr>eng_parse = demo_parse, eng_compile = demo_compile,
            eng_transform = demo_transform, eng_save = demo_save,
            eng_malloc = (\<lambda>n. n < 4294967296)\<rparr>"

text \<open>
  \<open>loaded p\<close> is the world that \<open>make_style\<close> leaves when it compiles the stylesheet
  text \<open>p\<close> in an empty world under \<open>demo\<close>: the tree at address 0, the stylesheet at
  address 1. \<open>no_out\<close> is a caller's pair of output locations before any call.
  \<open>padded n\<close> is a text of \<open>n + 7\<close> bytes that \<open>demo\<close> parses, \<open>junk n\<close> a text of \<open>n\<close>
  bytes that it rejects.
\<close>

definition loaded :: "string \<Rightarrow> (string, string) world" where
  "loaded p = \<lparr>heap = [Doc p, Sheet 0 0 p], last_error = None\<rparr>"

definition no_out :: out_cells where
  "no_out = \<lparr>xml_txt = None, xml_txt_len = 0\<rparr>"

definition padded :: "nat \<Rightarrow> string" where
  "padded n = ''<a>'' @ replicate n CHR ''x'' @ ''</a>''"

definition junk :: "nat \<Rightarrow> string" where
  "junk n = replicate n CHR ''x''"



section \<open>The paths through apply_style\<close>

lemmas step_defs = xmlParseMemory_def xsltParseStylesheetDoc_def xsltApplyStylesheet_def
  xsltSaveResultToString_def xsltFreeStylesheet_def malloc_def strncpy_def alloc_def lookup_def
  release_def xmlFree_def xmlFreeDoc_def xmlGetLastError_def xmlResetLastError_def
  sheet_errors_def strlen_def INT32_MAX_def

lemma apply_too_long:
  "INT32_MAX < strlen xml \<Longrightarrow> apply_style E style xml params w out = Inr (- 1, w, out)"
  by (simp add: apply_style_def)

lemma apply_parse_null:
  "strlen xml \<le> INT32_MAX \<Longrightarrow> eng_parse E xml (last_error w) = (None, e) \<Longrightarrow>
   apply_style E style xml params w out = Inr (- 1, w\<lparr>last_error := None\<rparr>, out)"
  by (simp add: apply_style_def step_defs)




lemma apply_no_copy:
  "strlen xml \<le> INT32_MAX \<Longrightarrow> eng_parse E xml (last_error w) = (Some t, None) \<Longrightarrow>
   lookup w s = Some (Sheet sd errs prog) \<Longrightarrow>
   eng_transform E prog t params None = (Some res, e2) \<Longrightarrow>
   eng_save E res prog e2 = (sr, e3) \<Longrightarrow>
   sr_status sr \<noteq> 0 \<or> store_int (xml_txt_len out) (sr_len sr) = 0 \<Longrightarrow>
   apply_style E (Some s) xml params w out =
     Inr (sr_status sr,
          w\<lparr>heap := heap w @ [Freed, Freed] @ (case sr_txt sr of None \<Rightarrow> [] | Some bs \<Rightarrow> [Buf bs]),
            last_error := e3\<rparr>,
          out\<lparr>xml_txt_len := store_int (xml_txt_len out) (sr_len sr)\<rparr>)"
  by (auto simp add: apply_style_def step_defs nth_append list_update_append
      split: if_splits option.splits)

lemma apply_copy:
  "strlen xml \<le> INT32_MAX \<Longrightarrow> eng_parse E xml (last_error w) = (Some t, None) \<Longrightarrow>
   lookup w s = Some (Sheet sd errs prog) \<Longrightarrow>
   eng_transform E prog t params None = (Some res, e2) \<Longrightarrow>
   eng_save E res prog e2 = (sr, e3) \<Longrightarrow>
   sr_status sr = 0 \<Longrightarrow> n = store_int (xml_txt_len out) (sr_len sr) \<Longrightarrow> 0 < n \<Longrightarrow>
   eng_malloc E n \<Longrightarrow> sr_txt sr = Some bs \<Longrightarrow>
   0 \<in> set bs \<or> n \<le> length bs \<Longrightarrow>
   apply_style E (Some s) xml params w out =
     Inr (0,
          w\<lparr>heap := heap w @ [Freed, Freed, Freed, Buf (strncpy_bytes bs n)],
            last_error := e3\<rparr>,
          \<lparr>xml_txt = Some (length (heap w) + 3), xml_txt_len = n\<rparr>)"
  by (auto simp add: apply_style_def step_defs nth_append list_update_append
      split: if_splits option.splits)

section \<open>The paths through make_style\<close>

lemma make_too_long:
  "INT32_MAX < strlen xsl \<Longrightarrow> make_style E xsl w st = (- 1, w, st)"
  by (simp add: make_style_def)

lemma make_parse_null:
  "strlen xsl \<le> INT32_MAX \<Longrightarrow> eng_parse E xsl (last_error w) = (None, e) \<Longrightarrow>
   make_style E xsl w st = (- 1, w\<lparr>last_error := None\<rparr>, st)"
  by (simp add: make_style_def step_defs)




lemma make_ok:
  "strlen xsl \<le> INT32_MAX \<Longrightarrow> eng_parse E xsl (last_error w) = (Some t, None) \<Longrightarrow>
   eng_compile E t None = (Some (0, prog), e2) \<Longrightarrow>
   make_style E xsl w st =
     (0, w\<lparr>heap := heap w @ [Doc t, Sheet (length (heap w)) 0 prog], last_error := e2\<rparr>,
      Some (length (heap w) + 1))"
  by (simp add: make_style_def step_defs list_update_append nth_append)

lemma make_style_nonneg:
  assumes "make_style E xsl w st = (ok, w1, st1)" and "\<not> ok < 0"
  shows "\<exists>t prog e2. strlen xsl \<le> INT32_MAX \<and> eng_parse E xsl (last_error w) = (Some t, None) \<and>
           eng_compile E t None = (Some (0, prog), e2)"
  using assms
  by (auto simp add: make_style_def step_defs list_update_append nth_append Let_def split: if_splits option.splits prod.splits)

text \<open>\<open>apply_style\<close> leaves every cell that existed before the call as it was.\<close>

lemma apply_frame:
  "apply_style E style xml params w out = Inr (r, w', out') \<Longrightarrow> a < length (heap w) \<Longrightarrow>
   lookup w' a = lookup w a"
  by (auto simp add: apply_style_def step_defs nth_append list_update_append Let_def nth_list_update
      split: if_splits option.splits prod.splits sum.splits obj.splits)

section \<open>Facts for concrete runs\<close>

lemmas demo_defs = demo_def demo_parse_def demo_compile_def demo_transform_def demo_save_def
  loaded_def no_out_def store_int_def

lemma replicate_numeral_unfold:
  "replicate (numeral k) x = replicate (pred_numeral k) x @ [x]"
  by (simp add: numeral_eq_Suc replicate_append_same)

text \<open>What \<^verbatim>\<open>strncpy\<close> leaves in the buffer: the whole text when it holds no zero byte,
  and otherwise the bytes before the first zero byte followed by zero bytes.\<close>

lemma takeWhile_nonzero:
  "0 \<notin> set bs \<Longrightarrow> takeWhile (\<lambda>b. b \<noteq> (0 :: byte)) bs = bs"
  by (induction bs) auto

lemma strncpy_bytes_exact:
  "0 \<notin> set bs \<Longrightarrow> strncpy_bytes (bs @ [0]) (length bs) = bs"
  by (simp add: strncpy_bytes_def takeWhile_nonzero)

lemma strncpy_bytes_cut:
  assumes "0 \<notin> set bs" and "length bs < n"
  shows "strncpy_bytes (bs @ 0 # rest) n = bs @ replicate (n - length bs) 0"
proof -
  from assms(2) obtain k where k: "n - length bs = Suc k"
    by (cases "n - length bs") auto
  have "take n (bs @ 0 # rest) = bs @ 0 # take k rest"
    using assms(2) k by simp
  moreover have "takeWhile (\<lambda>b. b \<noteq> (0 :: byte)) (bs @ 0 # take k rest) = bs"
    using assms(1) by (induction bs) auto
  ultimately show ?thesis by (simp add: strncpy_bytes_def)
qed

lemma strlen_padded: "strlen (padded n) = n + 7"
  by (simp add: padded_def strlen_def)

lemma parse_padded: "demo_parse (padded n) e = (Some (padded n), e)"
  by (simp add: padded_def demo_parse_def)

lemma strlen_junk: "strlen (junk n) = n"
  by (simp add: junk_def strlen_def)

lemma parse_junk: "0 < n \<Longrightarrow> demo_parse (junk n) e = (None, Some 4)"
  by (simp add: junk_def demo_parse_def)

lemma bytes_padded: "0 \<notin> set (map of_char (padded n) :: byte list)"
  by (auto simp add: padded_def)


lemma unat_len: "unat (of_nat (length (padded 2147483640)) :: 32 word) = 2147483647"
  by (simp add: padded_def)

lemma copy_padded:
  "strncpy_bytes (map of_char (padded 2147483640) @ [0]) 2147483647 = map of_char (padded 2147483640)"
proof -
  have "length (map of_char (padded 2147483640) :: byte list) = 2147483647"
    by (simp add: padded_def)
  with strncpy_bytes_exact [OF bytes_padded [of 2147483640]] show ?thesis by simp
qed


section \<open>The stylesheet compiler\<close>

text \<open>
  Claim C1: when compilation produces a stylesheet handle whose error count is not zero,
  \<open>make_style\<close> reports failure and releases that handle before returning.

  The code does not. On this path it calls \<^verbatim>\<open>xmlFreeDoc(style_doc)\<close> and returns -1; it
  never calls \<^verbatim>\<open>xsltFreeStylesheet\<close>. Run on the stylesheet text \<open><errs/>\<close>, for which
  the engine returns a handle with one error: the return value is -1, the cell of the
  source tree (address 0) is released, and the stylesheet (address 1) is still allocated,
  its \<^verbatim>\<open>doc\<close> field pointing at the released tree; \<^verbatim>\<open>*style\<close> holds its address. \<open>xslt\<close>
  returns on the failure without calling \<open>free_style\<close>, so the handle stays allocated.
  (The general statement of this path is \<open>make_compile_errors\<close>.)
\<close>

theorem make_style_errors_handle_not_released:
  "make_style demo ''<errs/>'' \<lparr>heap = [], last_error = None\<rparr> None =
     (- 1, \<lparr>heap = [Freed, Sheet 0 1 ''<errs/>''], last_error = None\<rparr>, Some 1)
   \<and> xslt demo ''<errs/>'' ''<a/>'' [] \<lparr>heap = [], last_error = None\<rparr> no_out =
     Inr (- 1, \<lparr>heap = [Freed, Sheet 0 1 ''<errs/>''], last_error = None\<rparr>, no_out)"
  by (simp add: xslt_def make_style_def step_defs demo_defs)

section \<open>The transform applier\<close>

text \<open>
  Claim C2: when the parse step of \<open>apply_style\<close> fails or leaves a pending parser error,
  the call returns failure and first releases every resource it allocated, in particular
  the tree the parse step produced.

  The code returns -1 and resets the error, but on this path it releases nothing. When
  the parser returns a tree and an error is pending (recorded by this parse, as for
  \<open><a:b/>\<close>, or left over from before the call, as in the second run), the tree stays
  allocated: address 2 still holds it after the call. (The general statement is
  \<open>apply_parse_error\<close>; \<open>make_parse_error\<close> is the same path in \<open>make_style\<close>.)
\<close>

theorem apply_style_parse_error_leaks_tree:
  "apply_style demo (Some 1) ''<a:b/>'' [] (loaded ''<xsl/>'') no_out =
     Inr (- 1, \<lparr>heap = [Doc ''<xsl/>'', Sheet 0 0 ''<xsl/>'', Doc ''<a:b/>''], last_error = None\<rparr>,
          no_out)
   \<and> apply_style demo (Some 1) ''<a/>'' [] ((loaded ''<xsl/>'')\<lparr>last_error := Some 4\<rparr>) no_out =
     Inr (- 1, \<lparr>heap = [Doc ''<xsl/>'', Sheet 0 0 ''<xsl/>'', Doc ''<a/>''], last_error = None\<rparr>,
          no_out)"
  by (simp add: apply_style_def step_defs demo_defs)

text \<open>
  Claim C3: on a successful call with a positive output length the output buffer holds
  exactly the serialised bytes and the length is their count; with length zero no buffer
  is allocated and the output pointer is not written; both trees are destroyed.

  The copy into the caller's buffer is made with \<^verbatim>\<open>strncpy\<close>, which stops at the first
  zero byte and fills the rest with zero bytes. Under the stylesheet \<open><utf16/>\<close> the
  serialised bytes of \<open><a>\<close> are \<open>3C 00 61 00 3E 00\<close>, length 6; the call returns 0 with
  length 6, and the buffer (address 5) holds \<open>3C 00 00 00 00 00\<close>. (In general the
  buffer is given by \<open>apply_copy\<close> and \<open>strncpy_bytes_cut\<close>; for a text without a zero
  byte it is the text, \<open>strncpy_bytes_exact\<close>. The zero-length case is \<open>apply_no_copy\<close>.)
\<close>

theorem apply_style_output_cut_at_zero_byte:
  "fst (demo_save ''<a>'' ''<utf16/>'' None) =
     \<lparr>sr_status = 0, sr_txt = Some [60, 0, 97, 0, 62, 0, 0, 0], sr_len = 6\<rparr>
   \<and> apply_style demo (Some 1) ''<a>'' [] (loaded ''<utf16/>'') no_out =
     Inr (0, \<lparr>heap = [Doc ''<utf16/>'', Sheet 0 0 ''<utf16/>'', Freed, Freed, Freed,
                      Buf [60, 0, 0, 0, 0, 0]],
              last_error = None\<rparr>,
          \<lparr>xml_txt = Some 5, xml_txt_len = 6\<rparr>)"
  by (simp add: apply_style_def step_defs strncpy_bytes_def demo_defs replicate_numeral_unfold)

text \<open>
  Claim C4: whenever the serialisation step of \<open>apply_style\<close> reports a non-zero status,
  the call returns failure (that status), the caller's output pointer is left as it was, no
  output buffer is allocated, and the input tree and the result tree are both destroyed.
  The call reaches serialisation exactly when the text passes the length check, parses to
  a tree with no error pending, the handle is a stylesheet and the transform gives a
  result. The cells the call adds are the two trees, both released, and the buffer of the
  serialiser if it allocated one.
\<close>

theorem apply_style_save_failure:
  assumes "strlen xml \<le> INT32_MAX"
    and "eng_parse E xml (last_error w) = (Some t, None)"
    and "lookup w s = Some (Sheet sd errs prog)"
    and "eng_transform E prog t params None = (Some res, e2)"
    and "eng_save E res prog e2 = (sr, e3)"
    and "sr_status sr \<noteq> 0"
  shows "\<exists>w' out'. apply_style E (Some s) xml params w out = Inr (sr_status sr, w', out')
           \<and> xml_txt out' = xml_txt out
           \<and> heap w' = heap w @ [Freed, Freed] @ (case sr_txt sr of None \<Rightarrow> [] | Some bs \<Rightarrow> [Buf bs])
           \<and> lookup w' (length (heap w)) = Some Freed
           \<and> lookup w' (length (heap w) + 1) = Some Freed"
proof -
  have "sr_status sr \<noteq> 0 \<or> store_int (xml_txt_len out) (sr_len sr) = 0"
    using assms(6) by simp
  from apply_no_copy [OF assms(1-5) this]
  show ?thesis by (auto simp add: lookup_def nth_append split: option.splits)
qed

text \<open>A run of C4: the serialiser reports -1 for the result \<open><fail/>\<close>.\<close>

theorem apply_style_save_failure_witness:
  "\<exists>w' out'. apply_style demo (Some 1) ''<fail/>'' [] (loaded ''<xsl/>'')
                 \<lparr>xml_txt = Some 0, xml_txt_len = 9\<rparr> = Inr (- 1, w', out')
     \<and> xml_txt out' = Some 0
     \<and> heap w' = [Doc ''<xsl/>'', Sheet 0 0 ''<xsl/>'', Freed, Freed]
     \<and> lookup w' 2 = Some Freed
     \<and> lookup w' 3 = Some Freed"
proof -
  have 1: "strlen ''<fail/>'' \<le> INT32_MAX" by (simp add: step_defs)
  have 2: "eng_parse demo ''<fail/>'' (last_error (loaded ''<xsl/>'')) = (Some ''<fail/>'', None)"
    by (simp add: demo_defs)
  have 3: "lookup (loaded ''<xsl/>'') 1 = Some (Sheet 0 0 ''<xsl/>'')"
    by (simp add: lookup_def demo_defs)
  have 4: "eng_transform demo ''<xsl/>'' ''<fail/>'' [] None = (Some ''<fail/>'', None)"
    by (simp add: demo_defs)
  have 5: "eng_save demo ''<fail/>'' ''<xsl/>'' None
             = (\<lparr>sr_status = - 1, sr_txt = None, sr_len = 0\<rparr>, None)"
    by (simp add: demo_defs)
  have 6: "sr_status \<lparr>sr_status = - 1, sr_txt = None, sr_len = 0\<rparr> \<noteq> 0" by simp
  from apply_style_save_failure [OF 1 2 3 4 5 6, of "\<lparr>xml_txt = Some 0, xml_txt_len = 9\<rparr>"]
  show ?thesis by (simp add: loaded_def numeral_2_eq_2 numeral_3_eq_3)
qed

text \<open>
  Claim C9: on every failure path of \<open>apply_style\<close> (a return value other than 0) the
  caller's output pointer \<^verbatim>\<open>*xml_txt\<close> holds the value it held before the call.
\<close>

theorem apply_style_failure_keeps_xml_txt:
  "apply_style E style xml params w out = Inr (r, w', out') \<Longrightarrow> r \<noteq> 0 \<Longrightarrow>
   xml_txt out' = xml_txt out"
  by (auto simp add: apply_style_def step_defs Let_def
      split: if_splits option.splits prod.splits sum.splits obj.splits)

text \<open>A run of C9: the transform gives no result for \<open><none/>\<close>, and the pointer the
  caller had stored stays.\<close>

theorem apply_style_failure_keeps_xml_txt_witness:
  "apply_style demo (Some 1) ''<none/>'' [] (loaded ''<xsl/>'') \<lparr>xml_txt = Some 0, xml_txt_len = 9\<rparr>
     = Inr (- 1, \<lparr>heap = [Doc ''<xsl/>'', Sheet 0 0 ''<xsl/>'', Freed], last_error = None\<rparr>,
            \<lparr>xml_txt = Some 0, xml_txt_len = 9\<rparr>)
   \<and> xml_txt \<lparr>xml_txt = Some 0, xml_txt_len = 9\<rparr> = xml_txt \<lparr>xml_txt = Some 0, xml_txt_len = 9\<rparr>"
proof -
  have run: "apply_style demo (Some 1) ''<none/>'' [] (loaded ''<xsl/>'')
               \<lparr>xml_txt = Some 0, xml_txt_len = 9\<rparr>
     = Inr (- 1, \<lparr>heap = [Doc ''<xsl/>'', Sheet 0 0 ''<xsl/>'', Freed], last_error = None\<rparr>,
            \<lparr>xml_txt = Some 0, xml_txt_len = 9\<rparr>)"
    by (simp add: apply_style_def step_defs demo_defs)
  have "(- 1 :: int) \<noteq> 0" by simp
  from apply_style_failure_keeps_xml_txt [OF run this] run show ?thesis by blast
qed

section \<open>The transform facade\<close>

text \<open>
  Claim C5: \<open>xslt\<close> runs the compiler; if compilation fails it returns failure without
  running the applier (the world is as \<open>make_style\<close> left it and the output locations are
  untouched, whatever the XML text and the parameters are); otherwise it runs the applier
  on the handle \<open>make_style\<close> stored, then releases the compiled program whatever the
  applier returned, and returns the applier's return value. The stylesheet and its
  document are allocated before the release and released after it, and the release cannot
  fault. (If the applier faults, so does \<open>xslt\<close>.)
\<close>

theorem xslt_compile_apply_release:
  assumes "make_style E xsl w None = (ok, w1, style)"
  shows "(ok < 0 \<longrightarrow> xslt E xsl xml params w out = Inr (- 1, w1, out))
       \<and> (\<not> ok < 0 \<longrightarrow>
            (\<forall>f. apply_style E style xml params w1 out = Inl f
                  \<longrightarrow> xslt E xsl xml params w out = Inl f)
          \<and> (\<forall>r w2 out'. apply_style E style xml params w1 out = Inr (r, w2, out')
                  \<longrightarrow> (\<exists>s sd errs prog w3. style = Some s
                        \<and> lookup w2 s = Some (Sheet sd errs prog) \<and> live w2 sd
                        \<and> free_style style w2 = Inr w3
                        \<and> xslt E xsl xml params w out = Inr (r, w3, out')
                        \<and> \<not> live w3 s \<and> \<not> live w3 sd)))"
proof (intro conjI impI allI)
  assume "ok < 0"
  with assms show "xslt E xsl xml params w out = Inr (- 1, w1, out)"
    by (simp add: xslt_def)
next
  fix f assume "\<not> ok < 0" and "apply_style E style xml params w1 out = Inl f"
  with assms show "xslt E xsl xml params w out = Inl f"
    by (simp add: xslt_def)
next
  fix r w2 out'
  assume nonneg: "\<not> ok < 0" and run: "apply_style E style xml params w1 out = Inr (r, w2, out')"
  from make_style_nonneg [OF assms nonneg] obtain t prog e2 where
    len: "strlen xsl \<le> INT32_MAX" and p: "eng_parse E xsl (last_error w) = (Some t, None)"
    and c: "eng_compile E t None = (Some (0, prog), e2)"
    by blast
  let ?n = "length (heap w)"
  from make_ok [OF len p c, of None] assms
  have w1: "w1 = w\<lparr>heap := heap w @ [Doc t, Sheet ?n 0 prog], last_error := e2\<rparr>"
    and st: "style = Some (?n + 1)"
    by simp_all
  have l1: "lookup w1 (?n + 1) = Some (Sheet ?n 0 prog)" and l0: "lookup w1 ?n = Some (Doc t)"
    by (simp_all add: w1 lookup_def nth_append)
  have "lookup w2 (?n + 1) = lookup w1 (?n + 1)" and "lookup w2 ?n = lookup w1 ?n"
    using apply_frame [OF run] by (simp_all add: w1)
  with l1 l0 have k1: "lookup w2 (?n + 1) = Some (Sheet ?n 0 prog)" and k0: "lookup w2 ?n = Some (Doc t)"
    by simp_all
  then have fr: "free_style style w2 = Inr (release (?n + 1) (release ?n w2))"
    by (simp add: free_style_def xsltFreeStylesheet_def st)
  have dead: "\<not> live (release (?n + 1) (release ?n w2)) (?n + 1)"
    using k1 by (simp add: live_def lookup_def release_def split: if_splits)
  have dead_doc: "\<not> live (release (?n + 1) (release ?n w2)) ?n"
    using k0 by (simp add: live_def lookup_def release_def split: if_splits)
  have alive: "live w2 ?n" using k0 by (simp add: live_def)
  have "xslt E xsl xml params w out = Inr (r, release (?n + 1) (release ?n w2), out')"
    using assms nonneg run fr by (simp add: xslt_def)
  with st k1 alive fr dead dead_doc
  show "\<exists>s sd errs prog w3. style = Some s
          \<and> lookup w2 s = Some (Sheet sd errs prog) \<and> live w2 sd
          \<and> free_style style w2 = Inr w3
          \<and> xslt E xsl xml params w out = Inr (r, w3, out')
          \<and> \<not> live w3 s \<and> \<not> live w3 sd"
    by blast
qed

text \<open>Two runs of C5: a stylesheet that does not compile, and one that does.\<close>

theorem xslt_compile_apply_release_witness:
  "xslt demo ''<none/>'' ''<a/>'' [] \<lparr>heap = [], last_error = None\<rparr> no_out
     = Inr (- 1, \<lparr>heap = [Freed], last_error = None\<rparr>, no_out)
   \<and> (\<exists>w3. xslt demo ''<xsl/>'' ''<a/>'' [] \<lparr>heap = [], last_error = None\<rparr> no_out
          = Inr (0, w3, \<lparr>xml_txt = Some 5, xml_txt_len = 4\<rparr>)
        \<and> \<not> live w3 1 \<and> \<not> live w3 0)"
proof -
  have m1: "make_style demo ''<none/>'' \<lparr>heap = [], last_error = None\<rparr> None
              = (- 1, \<lparr>heap = [Freed], last_error = None\<rparr>, None)"
    by (simp add: make_style_def step_defs demo_defs)
  have a: "xslt demo ''<none/>'' ''<a/>'' [] \<lparr>heap = [], last_error = None\<rparr> no_out
     = Inr (- 1, \<lparr>heap = [Freed], last_error = None\<rparr>, no_out)"
    using xslt_compile_apply_release [OF m1, of "''<a/>''" "[]" no_out] by simp
  have m2: "make_style demo ''<xsl/>'' \<lparr>heap = [], last_error = None\<rparr> None
              = (0, loaded ''<xsl/>'', Some 1)"
    by (simp add: make_style_def step_defs demo_defs)
  have r2: "apply_style demo (Some 1) ''<a/>'' [] (loaded ''<xsl/>'') no_out
              = Inr (0, \<lparr>heap = [Doc ''<xsl/>'', Sheet 0 0 ''<xsl/>'', Freed, Freed, Freed,
                                    Buf [60, 97, 47, 62]], last_error = None\<rparr>,
                     \<lparr>xml_txt = Some 5, xml_txt_len = 4\<rparr>)"
    by (simp add: apply_style_def step_defs strncpy_bytes_def demo_defs)
  have "\<not> (0 :: int) < 0" by simp
  with xslt_compile_apply_release [OF m2, of "''<a/>''" "[]" no_out] r2
  have b: "\<exists>w3. xslt demo ''<xsl/>'' ''<a/>'' [] \<lparr>heap = [], last_error = None\<rparr> no_out
          = Inr (0, w3, \<lparr>xml_txt = Some 5, xml_txt_len = 4\<rparr>)
        \<and> \<not> live w3 1 \<and> \<not> live w3 0"
    by (fastforce simp add: lookup_def)
  from a b show ?thesis by blast
qed

section \<open>The length limit\<close>

text \<open>
  Claim C6: for \<open>make_style\<close> and \<open>apply_style\<close>, a text of exactly \<^verbatim>\<open>INT32_MAX\<close> bytes
  passes the length check and goes on to parsing, succeeding when it is well-formed; a text
  one byte longer returns failure before any parse attempt.

  One byte over the limit the result is -1 and nothing has changed, whatever the engine
  is. At the limit the parser decides: when it gives no tree, both functions return -1 and
  the error it left is reset; when it gives a tree and no error, \<open>make_style\<close> returns 0
  with that tree and the stylesheet compiled from it allocated and the handle stored, and
  \<open>apply_style\<close> returns 0 with the serialised result of that tree in the output (no
  buffer when the stored length is zero; otherwise the copy needs \<^verbatim>\<open>malloc\<close> to grant the
  buffer and the serialiser's buffer to be readable for that length).
\<close>

theorem length_limit_boundary:
  "(strlen s = INT32_MAX + 1 \<longrightarrow>
      make_style E s w st = (- 1, w, st) \<and> apply_style E style s params w out = Inr (- 1, w, out))
   \<and> (strlen s = INT32_MAX \<longrightarrow>
        (\<forall>e. eng_parse E s (last_error w) = (None, e) \<longrightarrow>
            make_style E s w st = (- 1, w\<lparr>last_error := None\<rparr>, st)
          \<and> apply_style E style s params w out = Inr (- 1, w\<lparr>last_error := None\<rparr>, out))
      \<and> (\<forall>t prog e2. eng_parse E s (last_error w) = (Some t, None)
              \<and> eng_compile E t None = (Some (0, prog), e2) \<longrightarrow>
            make_style E s w st =
              (0, w\<lparr>heap := heap w @ [Doc t, Sheet (length (heap w)) 0 prog], last_error := e2\<rparr>,
               Some (length (heap w) + 1)))
      \<and> (\<forall>t h sd errs prog res e2 sr e3. eng_parse E s (last_error w) = (Some t, None)
              \<and> lookup w h = Some (Sheet sd errs prog)
              \<and> eng_transform E prog t params None = (Some res, e2)
              \<and> eng_save E res prog e2 = (sr, e3) \<and> sr_status sr = 0
              \<and> store_int (xml_txt_len out) (sr_len sr) = 0 \<longrightarrow>
            apply_style E (Some h) s params w out =
              Inr (0,
                   w\<lparr>heap := heap w @ [Freed, Freed]
                            @ (case sr_txt sr of None \<Rightarrow> [] | Some bs \<Rightarrow> [Buf bs]),
                     last_error := e3\<rparr>,
                   out\<lparr>xml_txt_len := 0\<rparr>))
      \<and> (\<forall>t h sd errs prog res e2 sr e3 n bs. eng_parse E s (last_error w) = (Some t, None)
              \<and> lookup w h = Some (Sheet sd errs prog)
              \<and> eng_transform E prog t params None = (Some res, e2)
              \<and> eng_save E res prog e2 = (sr, e3) \<and> sr_status sr = 0
              \<and> n = store_int (xml_txt_len out) (sr_len sr) \<and> 0 < n \<and> eng_malloc E n
              \<and> sr_txt sr = Some bs \<and> (0 \<in> set bs \<or> n \<le> length bs) \<longrightarrow>
            apply_style E (Some h) s params w out =
              Inr (0,
                   w\<lparr>heap := heap w @ [Freed, Freed, Freed, Buf (strncpy_bytes bs n)],
                     last_error := e3\<rparr>,
                   \<lparr>xml_txt = Some (length (heap w) + 3), xml_txt_len = n\<rparr>)))"
proof -
  have A: "strlen s = INT32_MAX + 1 \<longrightarrow>
      make_style E s w st = (- 1, w, st) \<and> apply_style E style s params w out = Inr (- 1, w, out)"
  proof
    assume "strlen s = INT32_MAX + 1"
    then have "INT32_MAX < strlen s" by simp
    then show "make_style E s w st = (- 1, w, st)
        \<and> apply_style E style s params w out = Inr (- 1, w, out)"
      by (simp add: make_too_long apply_too_long)
  qed
  have B: "strlen s = INT32_MAX \<longrightarrow>
        (\<forall>e. eng_parse E s (last_error w) = (None, e) \<longrightarrow>
            make_style E s w st = (- 1, w\<lparr>last_error := None\<rparr>, st)
          \<and> apply_style E style s params w out = Inr (- 1, w\<lparr>last_error := None\<rparr>, out))"
    using make_parse_null [of s E w _ st] apply_parse_null [of s E w _ style params out]
    by simp
  have C: "strlen s = INT32_MAX \<longrightarrow>
        (\<forall>t prog e2. eng_parse E s (last_error w) = (Some t, None)
              \<and> eng_compile E t None = (Some (0, prog), e2) \<longrightarrow>
            make_style E s w st =
              (0, w\<lparr>heap := heap w @ [Doc t, Sheet (length (heap w)) 0 prog], last_error := e2\<rparr>,
               Some (length (heap w) + 1)))"
    using make_ok [of s E w _ _ _ st] by simp
  have D: "strlen s = INT32_MAX \<longrightarrow>
        (\<forall>t h sd errs prog res e2 sr e3. eng_parse E s (last_error w) = (Some t, None)
              \<and> lookup w h = Some (Sheet sd errs prog)
              \<and> eng_transform E prog t params None = (Some res, e2)
              \<and> eng_save E res prog e2 = (sr, e3) \<and> sr_status sr = 0
              \<and> store_int (xml_txt_len out) (sr_len sr) = 0 \<longrightarrow>
            apply_style E (Some h) s params w out =
              Inr (0,
                   w\<lparr>heap := heap w @ [Freed, Freed]
                            @ (case sr_txt sr of None \<Rightarrow> [] | Some bs \<Rightarrow> [Buf bs]),
                     last_error := e3\<rparr>,
                   out\<lparr>xml_txt_len := 0\<rparr>))"
  proof (intro impI allI)
    fix t h sd errs prog res e2 sr e3
    assume len: "strlen s = INT32_MAX"
      and a: "eng_parse E s (last_error w) = (Some t, None)
              \<and> lookup w h = Some (Sheet sd errs prog)
              \<and> eng_transform E prog t params None = (Some res, e2)
              \<and> eng_save E res prog e2 = (sr, e3) \<and> sr_status sr = 0
              \<and> store_int (xml_txt_len out) (sr_len sr) = 0"
    from len have l: "strlen s \<le> INT32_MAX" by simp
    from a have c: "sr_status sr \<noteq> 0 \<or> store_int (xml_txt_len out) (sr_len sr) = 0" by simp
    from apply_no_copy [OF l _ _ _ _ c, of E w t h sd errs prog params res e2 e3] a
    show "apply_style E (Some h) s params w out =
              Inr (0,
                   w\<lparr>heap := heap w @ [Freed, Freed]
                            @ (case sr_txt sr of None \<Rightarrow> [] | Some bs \<Rightarrow> [Buf bs]),
                     last_error := e3\<rparr>,
                   out\<lparr>xml_txt_len := 0\<rparr>)"
      by simp
  qed
  have F: "strlen s = INT32_MAX \<longrightarrow>
        (\<forall>t h sd errs prog res e2 sr e3 n bs. eng_parse E s (last_error w) = (Some t, None)
              \<and> lookup w h = Some (Sheet sd errs prog)
              \<and> eng_transform E prog t params None = (Some res, e2)
              \<and> eng_save E res prog e2 = (sr, e3) \<and> sr_status sr = 0
              \<and> n = store_int (xml_txt_len out) (sr_len sr) \<and> 0 < n \<and> eng_malloc E n
              \<and> sr_txt sr = Some bs \<and> (0 \<in> set bs \<or> n \<le> length bs) \<longrightarrow>
            apply_style E (Some h) s params w out =
              Inr (0,
                   w\<lparr>heap := heap w @ [Freed, Freed, Freed, Buf (strncpy_bytes bs n)],
                     last_error := e3\<rparr>,
                   \<lparr>xml_txt = Some (length (heap w) + 3), xml_txt_len = n\<rparr>))"
  proof (intro impI allI)
    fix t h sd errs prog res e2 sr e3 n bs
    assume len: "strlen s = INT32_MAX"
      and a: "eng_parse E s (last_error w) = (Some t, None)
              \<and> lookup w h = Some (Sheet sd errs prog)
              \<and> eng_transform E prog t params None = (Some res, e2)
              \<and> eng_save E res prog e2 = (sr, e3) \<and> sr_status sr = 0
              \<and> n = store_int (xml_txt_len out) (sr_len sr) \<and> 0 < n \<and> eng_malloc E n
              \<and> sr_txt sr = Some bs \<and> (0 \<in> set bs \<or> n \<le> length bs)"
    from len have l: "strlen s \<le> INT32_MAX" by simp
    from a have 1: "eng_parse E s (last_error w) = (Some t, None)"
      and 2: "lookup w h = Some (Sheet sd errs prog)"
      and 3: "eng_transform E prog t params None = (Some res, e2)"
      and 4: "eng_save E res prog e2 = (sr, e3)" and 5: "sr_status sr = 0"
      and 6: "n = store_int (xml_txt_len out) (sr_len sr)" and 7: "0 < n" and 8: "eng_malloc E n"
      and 9: "sr_txt sr = Some bs" and 10: "0 \<in> set bs \<or> n \<le> length bs"
      by blast+
    show "apply_style E (Some h) s params w out =
              Inr (0,
                   w\<lparr>heap := heap w @ [Freed, Freed, Freed, Buf (strncpy_bytes bs n)],
                     last_error := e3\<rparr>,
                   \<lparr>xml_txt = Some (length (heap w) + 3), xml_txt_len = n\<rparr>)"
      by (rule apply_copy [OF l 1 2 3 4 5 6 7 8 9 10])
  qed
  show ?thesis
    apply (rule conjI, rule A, rule impI)
    apply (intro conjI)
       apply (rule B [THEN mp], assumption)
      apply (rule C [THEN mp], assumption)
     apply (rule D [THEN mp], assumption)
    apply (rule F [THEN mp], assumption)
    done
qed

text \<open>Runs of C6 under \<open>demo\<close>: a text of \<open>2147483648\<close> bytes is rejected and a pending
  error stays; a text of \<open>2147483647\<close> bytes that the parser rejects is rejected by the parser
  (the pending error is reset); a text of \<open>2147483647\<close> bytes that the parser accepts is
  compiled by \<open>make_style\<close> and transformed by \<open>apply_style\<close>, which returns its
  \<open>2147483647\<close> bytes.\<close>

theorem length_limit_boundary_witness:
  "make_style demo (padded 2147483641) \<lparr>heap = [], last_error = Some 7\<rparr> None
      = (- 1, \<lparr>heap = [], last_error = Some 7\<rparr>, None)
   \<and> apply_style demo (Some 1) (padded 2147483641) [] (loaded ''<xsl/>'') no_out
      = Inr (- 1, loaded ''<xsl/>'', no_out)
   \<and> make_style demo (junk 2147483647) \<lparr>heap = [], last_error = Some 7\<rparr> None
      = (- 1, \<lparr>heap = [], last_error = None\<rparr>, None)
   \<and> apply_style demo (Some 1) (junk 2147483647) [] ((loaded ''<xsl/>'')\<lparr>last_error := Some 7\<rparr>) no_out
      = Inr (- 1, loaded ''<xsl/>'', no_out)
   \<and> make_style demo (padded 2147483640) \<lparr>heap = [], last_error = None\<rparr> None
      = (0, \<lparr>heap = [Doc (padded 2147483640), Sheet 0 0 (padded 2147483640)], last_error = None\<rparr>,
         Some 1)
   \<and> apply_style demo (Some 1) (padded 2147483640) [] (loaded ''<xsl/>'') no_out
      = Inr (0, \<lparr>heap = [Doc ''<xsl/>'', Sheet 0 0 ''<xsl/>'', Freed, Freed, Freed,
                        Buf (map of_char (padded 2147483640))], last_error = None\<rparr>,
             \<lparr>xml_txt = Some 5, xml_txt_len = 2147483647\<rparr>)"
proof -
  have over: "strlen (padded 2147483641) = INT32_MAX + 1"
    by (simp add: strlen_padded INT32_MAX_def)
  have limit: "strlen (padded 2147483640) = INT32_MAX"
    by (simp add: strlen_padded INT32_MAX_def)
  have limit_junk: "strlen (junk 2147483647) = INT32_MAX"
    by (simp add: strlen_junk INT32_MAX_def)
  have A: "make_style demo (padded 2147483641) \<lparr>heap = [], last_error = Some 7\<rparr> None
      = (- 1, \<lparr>heap = [], last_error = Some 7\<rparr>, None)"
    using length_limit_boundary [of "padded 2147483641" demo "\<lparr>heap = [], last_error = Some 7\<rparr>" None,
              THEN conjunct1, THEN mp, OF over]
    by (rule conjunct1)
  have B: "apply_style demo (Some 1) (padded 2147483641) [] (loaded ''<xsl/>'') no_out
      = Inr (- 1, loaded ''<xsl/>'', no_out)"
    using length_limit_boundary [of "padded 2147483641" demo "loaded ''<xsl/>''" None "Some 1" "[]" no_out,
              THEN conjunct1, THEN mp, OF over]
    by (rule conjunct2)
  have pj: "eng_parse demo (junk 2147483647) (last_error \<lparr>heap = [], last_error = Some 7\<rparr>)
              = (None, Some 4)"
    "eng_parse demo (junk 2147483647) (last_error ((loaded ''<xsl/>'')\<lparr>last_error := Some 7\<rparr>))
              = (None, Some 4)"
    by (simp_all add: demo_def parse_junk)
  have C: "make_style demo (junk 2147483647) \<lparr>heap = [], last_error = Some 7\<rparr> None
      = (- 1, \<lparr>heap = [], last_error = None\<rparr>, None)"
    using length_limit_boundary [of "junk 2147483647" demo "\<lparr>heap = [], last_error = Some 7\<rparr>" None,
              THEN conjunct2, THEN mp, OF limit_junk, THEN conjunct1, THEN spec, THEN mp,
              OF pj(1), THEN conjunct1]
    by simp
  have D: "apply_style demo (Some 1) (junk 2147483647) []
             ((loaded ''<xsl/>'')\<lparr>last_error := Some 7\<rparr>) no_out
      = Inr (- 1, loaded ''<xsl/>'', no_out)"
    using length_limit_boundary [of "junk 2147483647" demo "(loaded ''<xsl/>'')\<lparr>last_error := Some 7\<rparr>" None
                 "Some 1" "[]" no_out,
              THEN conjunct2, THEN mp, OF limit_junk, THEN conjunct1, THEN spec, THEN mp,
              OF pj(2), THEN conjunct2]
    by (simp add: loaded_def)
  have p0: "eng_parse demo (padded 2147483640) (last_error \<lparr>heap = [], last_error = None\<rparr>)
              = (Some (padded 2147483640), None)"
    by (simp add: demo_def parse_padded)
  have c0: "eng_compile demo (padded 2147483640) None = (Some (0, padded 2147483640), None)"
    by (simp add: demo_def demo_compile_def padded_def)
  note pc = conjI [OF p0 c0]
  have F: "make_style demo (padded 2147483640) \<lparr>heap = [], last_error = None\<rparr> None
      = (0, \<lparr>heap = [Doc (padded 2147483640), Sheet 0 0 (padded 2147483640)], last_error = None\<rparr>,
         Some 1)"
    using length_limit_boundary [of "padded 2147483640" demo "\<lparr>heap = [], last_error = None\<rparr>" None,
              THEN conjunct2, THEN mp, OF limit, THEN conjunct2, THEN conjunct1, rule_format,
              OF pc]
    by simp
  let ?sr = "\<lparr>sr_status = 0, sr_txt = Some (map of_char (padded 2147483640) @ [0 :: byte]),
               sr_len = of_nat (length (padded 2147483640))\<rparr>"
  have r1: "eng_parse demo (padded 2147483640) (last_error (loaded ''<xsl/>''))
               = (Some (padded 2147483640), None)"
    by (simp add: demo_def parse_padded loaded_def)
  have r2: "lookup (loaded ''<xsl/>'') 1 = Some (Sheet 0 0 ''<xsl/>'')"
    by (simp add: lookup_def loaded_def)
  have r3: "eng_transform demo ''<xsl/>'' (padded 2147483640) [] None
              = (Some (padded 2147483640), None)"
    by (simp add: demo_def demo_transform_def padded_def)
  have r4: "eng_save demo (padded 2147483640) ''<xsl/>'' None = (?sr, None)"
    by (simp add: demo_def demo_save_def padded_def)
  have r5: "sr_status ?sr = 0" by simp
  have r6: "2147483647 = store_int (xml_txt_len no_out) (sr_len ?sr)"
    by (simp add: store_int_def no_out_def unat_len)
  have r7: "0 < (2147483647 :: nat)" by simp
  have r8: "eng_malloc demo 2147483647" by (simp add: demo_def)
  have r9: "sr_txt ?sr = Some (map of_char (padded 2147483640) @ [0])" by simp
  have r10: "0 \<in> set (map of_char (padded 2147483640) @ [0 :: byte])
           \<or> 2147483647 \<le> length (map of_char (padded 2147483640) @ [0 :: byte])"
    by simp
  note run = conjI [OF r1 conjI [OF r2 conjI [OF r3 conjI [OF r4 conjI [OF r5
               conjI [OF r6 conjI [OF r7 conjI [OF r8 conjI [OF r9 r10]]]]]]]]]
  have G: "apply_style demo (Some 1) (padded 2147483640) [] (loaded ''<xsl/>'') no_out
      = Inr (0, \<lparr>heap = [Doc ''<xsl/>'', Sheet 0 0 ''<xsl/>'', Freed, Freed, Freed,
                        Buf (map of_char (padded 2147483640))], last_error = None\<rparr>,
             \<lparr>xml_txt = Some 5, xml_txt_len = 2147483647\<rparr>)"
    using length_limit_boundary [of "padded 2147483640" demo "loaded ''<xsl/>''" None "Some 1" "[]" no_out,
              THEN conjunct2, THEN mp, OF limit, THEN conjunct2, THEN conjunct2, THEN conjunct2,
              rule_format, OF run]
    by (simp add: loaded_def copy_padded)
  from A B C D F G show ?thesis by simp
qed

section \<open>Every return of apply_style\<close>




section \<open>The pending-error slot\<close>







section \<open>Applying twice\<close>





section \<open>The parameter array\<close>

lemma replicate_update_same: "(replicate k x)[i := x] = replicate k x"
  by (induction k arbitrary: i) (simp_all split: nat.split)

lemma make_param_array_ok:
  "0 \<le> n \<Longrightarrow> n \<le> 1073741823 \<Longrightarrow> grant (sizeof_ptr * nat (2 * n + 1)) \<Longrightarrow>
   make_param_array grant n = Inr (replicate (nat (2 * n + 1)) None)"
  by (simp add: make_param_array_def int_ok_def replicate_update_same)

lemma set_param_ok:
  "0 \<le> t \<Longrightarrow> 2 * t + 1 < int (length a) \<Longrightarrow> length a \<le> 2147483647 \<Longrightarrow>
   set_param a nm v t = Inr (a[nat (2 * t) := nm, nat (2 * t + 1) := v])"
  by (simp add: set_param_def int_ok_def)

lemma set_params_frame:
  "\<forall>(nm, v, t) \<in> set cs. 0 \<le> t \<and> 2 * t + 1 < int (length a) \<Longrightarrow> length a \<le> 2147483647 \<Longrightarrow>
   \<exists>a'. set_params a cs = Inr a' \<and> length a' = length a
        \<and> (\<forall>i. (\<forall>(nm, v, t) \<in> set cs. i \<noteq> nat (2 * t) \<and> i \<noteq> nat (2 * t + 1)) \<longrightarrow> a' ! i = a ! i)"
proof (induction cs arbitrary: a)
  case Nil
  then show ?case by simp
next
  case (Cons c cs)
  obtain nm v t where c: "c = (nm, v, t)" by (cases c) auto
  from Cons.prems c have t: "0 \<le> t" "2 * t + 1 < int (length a)" by auto
  let ?b = "a[nat (2 * t) := nm, nat (2 * t + 1) := v]"
  have step: "set_param a nm v t = Inr ?b" using t Cons.prems(2) by (rule set_param_ok)
  have "\<forall>(nm, v, t) \<in> set cs. 0 \<le> t \<and> 2 * t + 1 < int (length ?b)"
    using Cons.prems(1) by auto
  moreover have "length ?b \<le> 2147483647" using Cons.prems(2) by simp
  ultimately obtain a' where a': "set_params ?b cs = Inr a'" "length a' = length ?b"
    "\<forall>i. (\<forall>(nm, v, t) \<in> set cs. i \<noteq> nat (2 * t) \<and> i \<noteq> nat (2 * t + 1)) \<longrightarrow> a' ! i = ?b ! i"
    using Cons.IH [of ?b] by blast
  have "set_params a (c # cs) = Inr a'" using c step a'(1) by simp
  moreover have "length a' = length a" using a'(2) by simp
  moreover have "\<forall>i. (\<forall>(nm, v, t) \<in> set (c # cs). i \<noteq> nat (2 * t) \<and> i \<noteq> nat (2 * t + 1))
                   \<longrightarrow> a' ! i = a ! i"
    using a'(3) c by auto
  ultimately show ?case by blast
qed

text \<open>
  Claim C10: for \<open>n \<ge> 0\<close>, \<open>make_param_array n\<close> returns \<open>2 * n + 1\<close> NULL slots, and
  in-bounds \<open>set_param\<close> calls write only their own two slots, so the sentinel and every
  slot never set stay NULL.

  As stated this fails twice. \<open>2 * num_tuples + 1\<close> is computed in \<^verbatim>\<open>int\<close>, and for
  \<open>n = 1073741824\<close> the product is outside its range. And the result of \<^verbatim>\<open>calloc\<close> is
  not tested: when the allocator refuses the request (here for two tuples) no array is
  returned and the store of the sentinel goes through NULL.
\<close>

theorem make_param_array_overflow:
  "make_param_array (\<lambda>b. True) 1073741824 = Inl SignedOverflow
   \<and> make_param_array (\<lambda>b. False) 2 = Inl NullDeref"
  by (simp add: make_param_array_def int_ok_def)

text \<open>
  Claim C10 as amended: for \<open>0 \<le> n \<le> 1073741823\<close>, when \<^verbatim>\<open>calloc\<close> grants the request of
  \<open>sizeof(char *) * (2 * n + 1)\<close> bytes, \<open>make_param_array n\<close> returns an array of
  \<open>2 * n + 1\<close> slots, all NULL; \<open>set_param\<close> at an index \<open>t\<close> with \<open>0 \<le> t < n\<close> changes
  slots \<open>2 * t\<close> and \<open>2 * t + 1\<close> and nothing else; and after any sequence of such calls
  the array still has \<open>2 * n + 1\<close> slots, slot \<open>2 * n\<close> is NULL and every slot that no call
  addressed is NULL.
\<close>

theorem param_array_slots:
  assumes "0 \<le> n" and "n \<le> 1073741823" and "grant (sizeof_ptr * nat (2 * n + 1))"
  shows "make_param_array grant n = Inr (replicate (nat (2 * n + 1)) None)
       \<and> (\<forall>a nm v t. length a = nat (2 * n + 1) \<and> 0 \<le> t \<and> t < n \<longrightarrow>
             set_param a nm v t = Inr (a[nat (2 * t) := nm, nat (2 * t + 1) := v]))
       \<and> (\<forall>cs. (\<forall>(nm, v, t) \<in> set cs. 0 \<le> t \<and> t < n) \<longrightarrow>
             (\<exists>a'. set_params (replicate (nat (2 * n + 1)) None) cs = Inr a'
                  \<and> length a' = nat (2 * n + 1)
                  \<and> a' ! nat (2 * n) = None
                  \<and> (\<forall>i < nat (2 * n + 1).
                        (\<forall>(nm, v, t) \<in> set cs. i \<noteq> nat (2 * t) \<and> i \<noteq> nat (2 * t + 1))
                        \<longrightarrow> a' ! i = None)))"
proof (intro conjI allI impI)
  show "make_param_array grant n = Inr (replicate (nat (2 * n + 1)) None)"
    using assms by (rule make_param_array_ok)
next
  fix a :: param_array and nm v t
  assume "length a = nat (2 * n + 1) \<and> 0 \<le> t \<and> t < n"
  with assms show "set_param a nm v t = Inr (a[nat (2 * t) := nm, nat (2 * t + 1) := v])"
    by (intro set_param_ok) auto
next
  fix cs :: "(string option \<times> string option \<times> int) list"
  assume cs: "\<forall>(nm, v, t) \<in> set cs. 0 \<le> t \<and> t < n"
  let ?a = "replicate (nat (2 * n + 1)) (None :: string option)"
  have "\<forall>(nm, v, t) \<in> set cs. 0 \<le> t \<and> 2 * t + 1 < int (length ?a)"
    using cs assms by auto
  moreover have "length ?a \<le> 2147483647" using assms by simp
  ultimately obtain a' where a': "set_params ?a cs = Inr a'" "length a' = length ?a"
    "\<forall>i. (\<forall>(nm, v, t) \<in> set cs. i \<noteq> nat (2 * t) \<and> i \<noteq> nat (2 * t + 1)) \<longrightarrow> a' ! i = ?a ! i"
    using set_params_frame [of cs ?a] by blast
  have sentinel: "\<forall>(nm, v, t) \<in> set cs. nat (2 * n) \<noteq> nat (2 * t) \<and> nat (2 * n) \<noteq> nat (2 * t + 1)"
    using cs assms by auto
  have "nat (2 * n) < nat (2 * n + 1)" using assms by simp
  then have "?a ! nat (2 * n) = None" by (simp only: nth_replicate)
  moreover have "a' ! nat (2 * n) = ?a ! nat (2 * n)" using a'(3) sentinel by blast
  ultimately have "a' ! nat (2 * n) = None" by simp
  moreover have "\<forall>i < nat (2 * n + 1).
      (\<forall>(nm, v, t) \<in> set cs. i \<noteq> nat (2 * t) \<and> i \<noteq> nat (2 * t + 1)) \<longrightarrow> a' ! i = None"
    using a'(3) by auto
  ultimately show "\<exists>a'. set_params ?a cs = Inr a'
                  \<and> length a' = nat (2 * n + 1)
                  \<and> a' ! nat (2 * n) = None
                  \<and> (\<forall>i < nat (2 * n + 1).
                        (\<forall>(nm, v, t) \<in> set cs. i \<noteq> nat (2 * t) \<and> i \<noteq> nat (2 * t + 1))
                        \<longrightarrow> a' ! i = None)"
    using a'(1) a'(2) by auto
qed

text \<open>A run of C10 with two tuples: index 1 is set twice, slots 0, 1 and 4 stay NULL.\<close>

theorem param_array_slots_witness:
  "make_param_array (\<lambda>b. b \<le> 4096) 2 = Inr [None, None, None, None, None]
   \<and> set_param [None, None, None, None, None] (Some ''k'') (Some ''v'') 1
        = Inr [None, None, Some ''k'', Some ''v'', None]
   \<and> (\<exists>a'. set_params [None, None, None, None, None]
               [(Some ''k'', Some ''v'', 1), (Some ''k2'', Some ''v2'', 1)] = Inr a'
          \<and> length a' = 5 \<and> a' ! 4 = None \<and> a' ! 0 = None \<and> a' ! 1 = None)"
proof -
  have r: "replicate (nat (2 * 2 + 1)) (None :: string option) = [None, None, None, None, None]"
    by (simp add: numeral_eq_Suc)
  have n: "(0 :: int) \<le> 2" "(2 :: int) \<le> 1073741823" by simp_all
  have g: "(\<lambda>b. b \<le> 4096) (sizeof_ptr * nat (2 * 2 + 1))" by (simp add: sizeof_ptr_def)
  note C = param_array_slots [of 2 "\<lambda>b. b \<le> 4096", OF n g, unfolded r]
  have A: "make_param_array (\<lambda>b. b \<le> 4096) 2 = Inr [None, None, None, None, None]"
    using C by blast
  have B: "set_param [None, None, None, None, None] (Some ''k'') (Some ''v'') 1
        = Inr [None, None, Some ''k'', Some ''v'', None]"
  proof -
    have "length [None :: string option, None, None, None, None] = nat (2 * 2 + 1) \<and> (0 :: int) \<le> 1 \<and> (1 :: int) < 2"
      by simp
    with C have "set_param [None, None, None, None, None] (Some ''k'') (Some ''v'') 1
        = Inr ([None, None, None, None, None][nat (2 * 1) := Some ''k'', nat (2 * 1 + 1) := Some ''v''])"
      by blast
    then show ?thesis by (simp add: numeral_eq_Suc)
  qed
  have "\<forall>(nm, v, t) \<in> set [(Some ''k'', Some ''v'', 1 :: int), (Some ''k2'', Some ''v2'', 1)]. 0 \<le> t \<and> t < 2"
    by simp
  with C obtain a' where a': "set_params [None, None, None, None, None]
               [(Some ''k'', Some ''v'', 1), (Some ''k2'', Some ''v2'', 1)] = Inr a'"
     "length a' = nat (2 * 2 + 1)" "a' ! nat (2 * 2) = None"
     "\<forall>i < nat (2 * 2 + 1).
         (\<forall>(nm, v, t) \<in> set [(Some ''k'', Some ''v'', 1 :: int), (Some ''k2'', Some ''v2'', 1)].
              i \<noteq> nat (2 * t) \<and> i \<noteq> nat (2 * t + 1)) \<longrightarrow> a' ! i = None"
    by blast
  from a'(4) have "a' ! 0 = None" "a' ! 1 = None" by simp_all
  with a'(1-3) have D: "\<exists>a'. set_params [None, None, None, None, None]
               [(Some ''k'', Some ''v'', 1), (Some ''k2'', Some ''v2'', 1)] = Inr a'
          \<and> length a' = 5 \<and> a' ! 4 = None \<and> a' ! 0 = None \<and> a' ! 1 = None"
    by simp
  from A B D show ?thesis by blast
qed

end
